theory Spec2Isabelle
  imports Main "HOL-Library.Sublist"
begin

section \<open>The resume list page: data model\<close>

text \<open>
  The page \<^verbatim>\<open>src/page.tsx\<close> keeps a collection of resume records fetched from
  \<^verbatim>\<open>/api/resumes\<close>, a filtered view derived from four criterion strings, and exports
  the filtered view to a spreadsheet.

  A string of the language is the list of its UTF-16 code units; \<open>js\<close> embeds a
  literal of the source.
\<close>

type_synonym jsstring = "nat list"

definition js :: "string \<Rightarrow> jsstring" where
  "js s = map of_char s"

text \<open>
  The records arrive as parsed JSON, so the interface \<^verbatim>\<open>ResumeData\<close> is not enforced
  at run time, and the filter code itself reads some parts through optional chaining
  (\<^verbatim>\<open>resume?.personalInfo?.name?.toLowerCase()\<close>). Every part that the filter code
  dereferences is therefore an \<open>option\<close> here: \<open>None\<close> stands for a missing
  (\<^verbatim>\<open>undefined\<close> or \<^verbatim>\<open>null\<close>) value, \<open>Some\<close> for a value of the declared type.
  The parts that no modelled function reads keep the declared type. The field
  \<^verbatim>\<open>name\<close> and \<^verbatim>\<open>description\<close> of a project are called \<open>project_name\<close> and
  \<open>project_description\<close>, since a field name is global in a theory.
\<close>

record PersonalInfo =
  name :: "jsstring option"
  email :: "jsstring option"
  phone :: "jsstring option"
  location :: "jsstring option"

record Education =
  degree :: jsstring
  institution :: jsstring
  year :: jsstring
  gpa :: jsstring

record Experience =
  title :: "jsstring option"
  company :: "jsstring option"
  duration :: jsstring
  responsibilities :: "jsstring list"

record Project =
  project_name :: jsstring
  project_description :: jsstring
  technologies :: "jsstring list"

record ResumeData =
  personalInfo :: "PersonalInfo option"
  education :: "Education list"
  experience :: "Experience option list option"
  projects :: "Project list"
  skills :: "jsstring option list option"
  certifications :: "jsstring list"
  fileUrl :: jsstring

text \<open>An element of the fetched array; \<open>None\<close> is a \<^verbatim>\<open>null\<close> element.\<close>

type_synonym resume = "ResumeData option"

text \<open>The component state: the seven \<^verbatim>\<open>useState\<close> cells of \<^verbatim>\<open>AllResumes\<close>.\<close>

record state =
  resumes :: "resume list"
  filteredResumes :: "resume list"
  searchTerm :: jsstring
  filterType :: jsstring
  skillFilter :: jsstring
  locationFilter :: jsstring
  experienceFilter :: jsstring

definition initial_state :: state where
  "initial_state =
     \<lparr>resumes = [], filteredResumes = [], searchTerm = [], filterType = js ''all'',
      skillFilter = [], locationFilter = [], experienceFilter = []\<rparr>"

text \<open>
  Reading a property of \<^verbatim>\<open>undefined\<close> and calling a method on it throw a
  \<^verbatim>\<open>TypeError\<close>; a function that can throw returns \<open>js_error + 'a\<close>.
\<close>

datatype js_error = TypeError

section \<open>Strings and arrays of the language\<close>

text \<open>
  \<^verbatim>\<open>String.prototype.toLowerCase\<close> applies the lower-case mapping of the Unicode
  standard. On a string whose code units all lie in U+0000..U+00FF that mapping works
  unit by unit and is written out here: the capitals A..Z (U+0041..U+005A) and the
  capitals U+00C0..U+00DE except the multiplication sign U+00D7 move up by 32, every
  other unit stays. The mapping of a string that holds a code unit above U+00FF needs
  the tables of the standard, which are not part of the page (beyond U+00FF it also is
  not a unit-by-unit map); it is the parameter \<open>wideLower\<close> of \<open>toLowerCase\<close> and of
  every function that lower-cases.
\<close>

definition latin1 :: "jsstring \<Rightarrow> bool" where
  "latin1 s = list_all (\<lambda>u. u < 256) s"

definition toLowerUnit :: "nat \<Rightarrow> nat" where
  "toLowerUnit u =
     (if (65 \<le> u \<and> u \<le> 90) \<or> (192 \<le> u \<and> u \<le> 222 \<and> u \<noteq> 215) then u + 32 else u)"

definition toLowerCase :: "(jsstring \<Rightarrow> jsstring) \<Rightarrow> jsstring \<Rightarrow> jsstring" where
  "toLowerCase wideLower s = (if latin1 s then map toLowerUnit s else wideLower s)"

text \<open>
  \<^verbatim>\<open>String.prototype.includes\<close>: the argument occurs in the string as a run of
  consecutive code units (the name \<open>includes\<close> is reserved in Isabelle, hence
  \<open>includes_str\<close>).
\<close>

fun includes_str :: "jsstring \<Rightarrow> jsstring \<Rightarrow> bool" where
  "includes_str [] t = (t = [])"
| "includes_str (c # s) t = (prefix t (c # s) \<or> includes_str s t)"

text \<open>The decimal text of a non-negative integer, as a template literal prints it.\<close>

fun toString_nat :: "nat \<Rightarrow> jsstring" where
  "toString_nat n =
     (if n < 10 then [48 + n]
      else toString_nat (n div 10) @ [48 + n mod 10])"

declare toString_nat.simps [simp del]

text \<open>
  \<^verbatim>\<open>Array.prototype.some\<close> calls the callback on each element in order and stops at the
  first truthy result; \<^verbatim>\<open>Array.prototype.filter\<close> calls it on every element. In both a
  throwing callback ends the call.
\<close>

fun some_js :: "('a \<Rightarrow> js_error + bool) \<Rightarrow> 'a list \<Rightarrow> js_error + bool" where
  "some_js p [] = Inr False"
| "some_js p (x # xs) =
     (case p x of
        Inl e \<Rightarrow> Inl e
      | Inr b \<Rightarrow> if b then Inr True else some_js p xs)"

fun filter_js :: "('a \<Rightarrow> js_error + bool) \<Rightarrow> 'a list \<Rightarrow> js_error + 'a list" where
  "filter_js p [] = Inr []"
| "filter_js p (x # xs) =
     (case p x of
        Inl e \<Rightarrow> Inl e
      | Inr b \<Rightarrow>
          (case filter_js p xs of
             Inl e \<Rightarrow> Inl e
           | Inr ys \<Rightarrow> Inr (if b then x # ys else ys)))"

section \<open>The filter callbacks\<close>

text \<open>
  An optional chain yields \<^verbatim>\<open>undefined\<close> (\<open>None\<close>) as soon as a guarded part is missing.
  \<open>truthy\<close> is the coercion that \<^verbatim>\<open>||\<close> and \<^verbatim>\<open>filter\<close> apply to such a value.
\<close>

definition truthy :: "bool option \<Rightarrow> bool" where
  "truthy v = (case v of None \<Rightarrow> False | Some b \<Rightarrow> b)"

text \<open>\<^verbatim>\<open>resume?.personalInfo?.name?.toLowerCase().includes(term)\<close>\<close>

definition nameIncludes :: "(jsstring \<Rightarrow> jsstring) \<Rightarrow> jsstring \<Rightarrow> resume \<Rightarrow> bool option" where
  "nameIncludes wideLower term resume =
     (case resume of
        None \<Rightarrow> None
      | Some r \<Rightarrow>
          (case personalInfo r of
             None \<Rightarrow> None
           | Some p \<Rightarrow>
               (case name p of
                  None \<Rightarrow> None
                | Some n \<Rightarrow> Some (includes_str (toLowerCase wideLower n) term))))"

text \<open>\<^verbatim>\<open>resume?.personalInfo?.email?.toLowerCase().includes(term)\<close>\<close>

definition emailIncludes :: "(jsstring \<Rightarrow> jsstring) \<Rightarrow> jsstring \<Rightarrow> resume \<Rightarrow> bool option" where
  "emailIncludes wideLower term resume =
     (case resume of
        None \<Rightarrow> None
      | Some r \<Rightarrow>
          (case personalInfo r of
             None \<Rightarrow> None
           | Some p \<Rightarrow>
               (case email p of
                  None \<Rightarrow> None
                | Some m \<Rightarrow> Some (includes_str (toLowerCase wideLower m) term))))"

text \<open>The callback \<^verbatim>\<open>(skill) => skill.toLowerCase().includes(term)\<close>.\<close>

definition skillIncludes ::
  "(jsstring \<Rightarrow> jsstring) \<Rightarrow> jsstring \<Rightarrow> jsstring option \<Rightarrow> js_error + bool" where
  "skillIncludes wideLower term skill =
     (case skill of
        None \<Rightarrow> Inl TypeError
      | Some s \<Rightarrow> Inr (includes_str (toLowerCase wideLower s) term))"

text \<open>
  The search callback (lines 87--90). The third disjunct guards \<^verbatim>\<open>resume\<close> only:
  \<^verbatim>\<open>resume?.skills.some(...)\<close> throws when \<^verbatim>\<open>skills\<close> is missing.
\<close>

definition searchMatch ::
  "(jsstring \<Rightarrow> jsstring) \<Rightarrow> jsstring \<Rightarrow> resume \<Rightarrow> js_error + bool" where
  "searchMatch wideLower term resume =
     (if truthy (nameIncludes wideLower term resume) then Inr True
      else if truthy (emailIncludes wideLower term resume) then Inr True
      else
        (case resume of
           None \<Rightarrow> Inr False
         | Some r \<Rightarrow>
             (case skills r of
                None \<Rightarrow> Inl TypeError
              | Some ss \<Rightarrow> some_js (skillIncludes wideLower term) ss)))"

text \<open>The skill callback (lines 96--100): no part is guarded.\<close>

definition skillMatch ::
  "(jsstring \<Rightarrow> jsstring) \<Rightarrow> jsstring \<Rightarrow> resume \<Rightarrow> js_error + bool" where
  "skillMatch wideLower skillFilter' resume =
     (case resume of
        None \<Rightarrow> Inl TypeError
      | Some r \<Rightarrow>
          (case skills r of
             None \<Rightarrow> Inl TypeError
           | Some ss \<Rightarrow>
               some_js (skillIncludes wideLower (toLowerCase wideLower skillFilter')) ss))"

text \<open>
  The location callback (lines 105--109): \<^verbatim>\<open>resume.personalInfo.location?.\<close> guards the
  location, not the record and not \<^verbatim>\<open>personalInfo\<close>.
\<close>

definition locationMatch ::
  "(jsstring \<Rightarrow> jsstring) \<Rightarrow> jsstring \<Rightarrow> resume \<Rightarrow> js_error + bool" where
  "locationMatch wideLower locationFilter' resume =
     (case resume of
        None \<Rightarrow> Inl TypeError
      | Some r \<Rightarrow>
          (case personalInfo r of
             None \<Rightarrow> Inl TypeError
           | Some p \<Rightarrow>
               (case location p of
                  None \<Rightarrow> Inr False
                | Some l \<Rightarrow>
                    Inr (includes_str (toLowerCase wideLower l)
                           (toLowerCase wideLower locationFilter')))))"

text \<open>
  The callback on one experience entry (lines 116--118); \<^verbatim>\<open>||\<close> reads the company
  only when the title does not match.
\<close>

definition expIncludes ::
  "(jsstring \<Rightarrow> jsstring) \<Rightarrow> jsstring \<Rightarrow> Experience option \<Rightarrow> js_error + bool" where
  "expIncludes wideLower experienceFilter' exp =
     (case exp of
        None \<Rightarrow> Inl TypeError
      | Some e \<Rightarrow>
          (case title e of
             None \<Rightarrow> Inl TypeError
           | Some t \<Rightarrow>
               if includes_str (toLowerCase wideLower t)
                    (toLowerCase wideLower experienceFilter')
               then Inr True
               else
                 (case company e of
                    None \<Rightarrow> Inl TypeError
                  | Some c \<Rightarrow>
                      Inr (includes_str (toLowerCase wideLower c)
                             (toLowerCase wideLower experienceFilter')))))"

text \<open>The experience callback (lines 114--120).\<close>

definition experienceMatch ::
  "(jsstring \<Rightarrow> jsstring) \<Rightarrow> jsstring \<Rightarrow> resume \<Rightarrow> js_error + bool" where
  "experienceMatch wideLower experienceFilter' resume =
     (case resume of
        None \<Rightarrow> Inl TypeError
      | Some r \<Rightarrow>
          (case experience r of
             None \<Rightarrow> Inl TypeError
           | Some es \<Rightarrow> some_js (expIncludes wideLower experienceFilter') es))"

section \<open>The filter recomputation\<close>

text \<open>
  The second effect of the component (lines 80--124). It starts from a copy of the
  collection, runs the four guarded \<^verbatim>\<open>filter\<close> calls in the order of the source and
  stores the result with \<^verbatim>\<open>setFilteredResumes\<close>. A non-empty string is truthy. When a
  callback throws, the effect ends there and the store is not reached.
\<close>

definition filterEffect :: "(jsstring \<Rightarrow> jsstring) \<Rightarrow> state \<Rightarrow> js_error + state" where
  "filterEffect wideLower st =
     (case (if searchTerm st \<noteq> []
            then filter_js (searchMatch wideLower (toLowerCase wideLower (searchTerm st)))
                   (resumes st)
            else Inr (resumes st)) of
        Inl e \<Rightarrow> Inl e
      | Inr filtered1 \<Rightarrow>
     (case (if skillFilter st \<noteq> []
            then filter_js (skillMatch wideLower (skillFilter st)) filtered1
            else Inr filtered1) of
        Inl e \<Rightarrow> Inl e
      | Inr filtered2 \<Rightarrow>
     (case (if locationFilter st \<noteq> []
            then filter_js (locationMatch wideLower (locationFilter st)) filtered2
            else Inr filtered2) of
        Inl e \<Rightarrow> Inl e
      | Inr filtered3 \<Rightarrow>
     (case (if experienceFilter st \<noteq> []
            then filter_js (experienceMatch wideLower (experienceFilter st)) filtered3
            else Inr filtered3) of
        Inl e \<Rightarrow> Inl e
      | Inr filtered4 \<Rightarrow> Inr (st\<lparr>filteredResumes := filtered4\<rparr>)))))"

section \<open>The handlers\<close>

text \<open>\<^verbatim>\<open>clearFilters\<close> (lines 127--133).\<close>

definition clearFilters :: "state \<Rightarrow> state" where
  "clearFilters st =
     st\<lparr>searchTerm := [], skillFilter := [], locationFilter := [],
        experienceFilter := [], filterType := js ''all''\<rparr>"

text \<open>\<^verbatim>\<open>handleFilterTypeChange\<close> (lines 136--144).\<close>

definition handleFilterTypeChange :: "jsstring \<Rightarrow> state \<Rightarrow> state" where
  "handleFilterTypeChange v st =
     (let st1 = st\<lparr>filterType := v\<rparr>
      in if v = js ''all''
         then st1\<lparr>skillFilter := [], locationFilter := [], experienceFilter := []\<rparr>
         else st1)"

text \<open>
  The four criterion inputs: each \<^verbatim>\<open>onChange\<close> handler stores the typed text in its own
  cell (lines 190, 218, 226, 234).
\<close>

datatype criterion = Search | Skill | Location | ExperienceC

fun get_criterion :: "criterion \<Rightarrow> state \<Rightarrow> jsstring" where
  "get_criterion Search st = searchTerm st"
| "get_criterion Skill st = skillFilter st"
| "get_criterion Location st = locationFilter st"
| "get_criterion ExperienceC st = experienceFilter st"

fun set_criterion :: "criterion \<Rightarrow> jsstring \<Rightarrow> state \<Rightarrow> state" where
  "set_criterion Search v st = st\<lparr>searchTerm := v\<rparr>"
| "set_criterion Skill v st = st\<lparr>skillFilter := v\<rparr>"
| "set_criterion Location v st = st\<lparr>locationFilter := v\<rparr>"
| "set_criterion ExperienceC v st = st\<lparr>experienceFilter := v\<rparr>"

section \<open>Effects on the outside: notices, the console, the spreadsheet writer\<close>

record ToastArgs =
  toast_title :: jsstring
  description :: jsstring
  variant :: "jsstring option"

record ExcelOptions =
  filename :: jsstring
  sheetName :: jsstring

text \<open>
  What a handler does to the outside, in order: a \<^verbatim>\<open>toast\<close> notice, a call of
  \<^verbatim>\<open>exportToExcel\<close> with its two arguments, a \<^verbatim>\<open>console.error\<close> line. \<open>'x\<close> is the type
  of the rows that \<^verbatim>\<open>prepareResumeDataForExcel\<close> produces.
\<close>

datatype 'x event =
    Toast ToastArgs
  | ExportToExcel 'x ExcelOptions
  | ConsoleError jsstring jsstring

fun is_toast :: "'x event \<Rightarrow> bool" where
  "is_toast (Toast _) = True"
| "is_toast _ = False"

fun is_export :: "'x event \<Rightarrow> bool" where
  "is_export (ExportToExcel _ _) = True"
| "is_export _ = False"

text \<open>
  \<^verbatim>\<open>handleExport\<close> (lines 147--167). The two functions of \<^verbatim>\<open>@/lib/excel\<close> are not part
  of the page; they are parameters, and either may throw. The result is the trace of
  events and the exception that ended the handler, if any.
\<close>

definition handleExport ::
  "(resume list \<Rightarrow> js_error + 'x) \<Rightarrow> ('x \<Rightarrow> ExcelOptions \<Rightarrow> js_error + unit) \<Rightarrow>
   state \<Rightarrow> 'x event list \<times> js_error option" where
  "handleExport prepareResumeDataForExcel exportToExcel st =
     (if length (filteredResumes st) = 0
      then ([Toast \<lparr>toast_title = js ''No Data'',
                    description = js ''There is no data to export.'',
                    variant = Some (js ''destructive'')\<rparr>], None)
      else
        (case prepareResumeDataForExcel (filteredResumes st) of
           Inl e \<Rightarrow> ([], Some e)
         | Inr excelData \<Rightarrow>
             (let opts = \<lparr>filename = js ''all-resumes.xlsx'', sheetName = js ''Resumes''\<rparr>
              in case exportToExcel excelData opts of
                   Inl e \<Rightarrow> ([ExportToExcel excelData opts], Some e)
                 | Inr _ \<Rightarrow>
                     ([ExportToExcel excelData opts,
                       Toast \<lparr>toast_title = js ''Success'',
                              description =
                                js ''Successfully exported ''
                                @ toString_nat (length (filteredResumes st))
                                @ js '' resumes to Excel.'',
                              variant = None\<rparr>], None))))"




section \<open>The filter engine as specified\<close>

text \<open>
  The optional parts of a record, read as the specification reads them: a missing part
  has no text and no entries.
\<close>

definition name_of :: "resume \<Rightarrow> jsstring option" where
  "name_of resume =
     (case resume of
        None \<Rightarrow> None
      | Some r \<Rightarrow> (case personalInfo r of None \<Rightarrow> None | Some p \<Rightarrow> name p))"

definition email_of :: "resume \<Rightarrow> jsstring option" where
  "email_of resume =
     (case resume of
        None \<Rightarrow> None
      | Some r \<Rightarrow> (case personalInfo r of None \<Rightarrow> None | Some p \<Rightarrow> email p))"

definition location_of :: "resume \<Rightarrow> jsstring option" where
  "location_of resume =
     (case resume of
        None \<Rightarrow> None
      | Some r \<Rightarrow> (case personalInfo r of None \<Rightarrow> None | Some p \<Rightarrow> location p))"

definition skills_of :: "resume \<Rightarrow> jsstring option list" where
  "skills_of resume =
     (case resume of
        None \<Rightarrow> []
      | Some r \<Rightarrow> (case skills r of None \<Rightarrow> [] | Some ss \<Rightarrow> ss))"

definition experience_of :: "resume \<Rightarrow> Experience option list" where
  "experience_of resume =
     (case resume of
        None \<Rightarrow> []
      | Some r \<Rightarrow> (case experience r of None \<Rightarrow> [] | Some es \<Rightarrow> es))"

definition title_of :: "Experience option \<Rightarrow> jsstring option" where
  "title_of exp = (case exp of None \<Rightarrow> None | Some e \<Rightarrow> title e)"

definition company_of :: "Experience option \<Rightarrow> jsstring option" where
  "company_of exp = (case exp of None \<Rightarrow> None | Some e \<Rightarrow> company e)"

text \<open>
  Case-insensitive substring matching, in the words of the specification and without
  the two library calls of the page. The letters with two cases in U+0000..U+00FF are
  listed with both forms: the capitals A..Z, U+00C0..U+00D6 and U+00D8..U+00DE, each
  with its small letter. Two code units are the same letter when they are equal or
  are the two forms of one listed letter. Ignoring the case of a text replaces each
  listed capital by its small letter; for a text that holds a code unit above U+00FF
  the forms of its letters are those of the Unicode tables, the parameter
  \<open>wideLower\<close>. The text contains the term when the term, case ignored, is a run of
  consecutive code units (HOL's \<open>sublist\<close>) of the text, case ignored. A missing text
  contains nothing (the edge case policy of the specification).
\<close>

definition capitals :: "nat list" where
  "capitals = js ''ABCDEFGHIJKLMNOPQRSTUVWXYZ'' @ [192..<215] @ [216..<223]"

definition smalls :: "nat list" where
  "smalls = js ''abcdefghijklmnopqrstuvwxyz'' @ [224..<247] @ [248..<255]"

definition small_of :: "nat \<Rightarrow> nat" where
  "small_of u = (case map_of (zip capitals smalls) u of None \<Rightarrow> u | Some l \<Rightarrow> l)"


definition ignore_case :: "(jsstring \<Rightarrow> jsstring) \<Rightarrow> jsstring \<Rightarrow> jsstring" where
  "ignore_case wideLower s = (if latin1 s then map small_of s else wideLower s)"

definition contains_ci :: "(jsstring \<Rightarrow> jsstring) \<Rightarrow> jsstring option \<Rightarrow> jsstring \<Rightarrow> bool" where
  "contains_ci wideLower txt t =
     (case txt of
        None \<Rightarrow> False
      | Some s \<Rightarrow> sublist (ignore_case wideLower t) (ignore_case wideLower s))"

text \<open>The four criteria in the words of the specification (section 4.2).\<close>

definition spec_search :: "(jsstring \<Rightarrow> jsstring) \<Rightarrow> jsstring \<Rightarrow> resume \<Rightarrow> bool" where
  "spec_search wideLower t resume =
     (contains_ci wideLower (name_of resume) t \<or> contains_ci wideLower (email_of resume) t
      \<or> list_ex (\<lambda>s. contains_ci wideLower s t) (skills_of resume))"

definition spec_skill :: "(jsstring \<Rightarrow> jsstring) \<Rightarrow> jsstring \<Rightarrow> resume \<Rightarrow> bool" where
  "spec_skill wideLower t resume = list_ex (\<lambda>s. contains_ci wideLower s t) (skills_of resume)"

definition spec_location :: "(jsstring \<Rightarrow> jsstring) \<Rightarrow> jsstring \<Rightarrow> resume \<Rightarrow> bool" where
  "spec_location wideLower t resume = contains_ci wideLower (location_of resume) t"

definition spec_experience :: "(jsstring \<Rightarrow> jsstring) \<Rightarrow> jsstring \<Rightarrow> resume \<Rightarrow> bool" where
  "spec_experience wideLower t resume =
     list_ex (\<lambda>e. contains_ci wideLower (title_of e) t \<or> contains_ci wideLower (company_of e) t)
       (experience_of resume)"

text \<open>
  The specified algorithm: start from the full collection and apply each active
  criterion in turn.
\<close>

definition spec_view :: "(jsstring \<Rightarrow> jsstring) \<Rightarrow> state \<Rightarrow> resume list" where
  "spec_view wideLower st =
     (let v0 = resumes st;
          v1 = (if searchTerm st \<noteq> []
                then filter (spec_search wideLower (searchTerm st)) v0 else v0);
          v2 = (if skillFilter st \<noteq> []
                then filter (spec_skill wideLower (skillFilter st)) v1 else v1);
          v3 = (if locationFilter st \<noteq> []
                then filter (spec_location wideLower (locationFilter st)) v2 else v2);
          v4 = (if experienceFilter st \<noteq> []
                then filter (spec_experience wideLower (experienceFilter st)) v3 else v3)
      in v4)"

text \<open>A record passes when it passes every active criterion.\<close>

definition spec_passes :: "(jsstring \<Rightarrow> jsstring) \<Rightarrow> state \<Rightarrow> resume \<Rightarrow> bool" where
  "spec_passes wideLower st resume =
     ((searchTerm st = [] \<or> spec_search wideLower (searchTerm st) resume)
      \<and> (skillFilter st = [] \<or> spec_skill wideLower (skillFilter st) resume)
      \<and> (locationFilter st = [] \<or> spec_location wideLower (locationFilter st) resume)
      \<and> (experienceFilter st = [] \<or> spec_experience wideLower (experienceFilter st) resume))"

section \<open>The shape of the records\<close>

text \<open>
  The shape that the four filter callbacks together take for granted: the record, its
  \<^verbatim>\<open>personalInfo\<close>, its \<^verbatim>\<open>skills\<close> array with every skill, and its \<^verbatim>\<open>experience\<close>
  array with the title and company of every entry are present. The name, the email,
  the phone and the location may be missing. Every record of the declared interface
  \<^verbatim>\<open>ResumeData\<close> has this shape.
\<close>

definition tolerated_exp :: "Experience option \<Rightarrow> bool" where
  "tolerated_exp exp =
     (case exp of
        None \<Rightarrow> False
      | Some e \<Rightarrow> title e \<noteq> None \<and> company e \<noteq> None)"

definition tolerated :: "resume \<Rightarrow> bool" where
  "tolerated resume =
     (case resume of
        None \<Rightarrow> False
      | Some r \<Rightarrow>
          personalInfo r \<noteq> None
          \<and> (case skills r of None \<Rightarrow> False | Some ss \<Rightarrow> list_all (\<lambda>s. s \<noteq> None) ss)
          \<and> (case experience r of None \<Rightarrow> False | Some es \<Rightarrow> list_all tolerated_exp es))"

text \<open>
  What one criterion alone needs. A scan with \<^verbatim>\<open>some\<close> visits the elements in order up
  to the first one that matches: \<open>scanned present hit xs\<close> says that every visited
  element is present.
\<close>

fun scanned :: "('a \<Rightarrow> bool) \<Rightarrow> ('a \<Rightarrow> bool) \<Rightarrow> 'a list \<Rightarrow> bool" where
  "scanned present hit [] = True"
| "scanned present hit (x # xs) = (present x \<and> (hit x \<or> scanned present hit xs))"

text \<open>
  The skill scan reads each visited skill string. The scan of the experience entries
  reads each visited entry and its title, and its company when the title does not
  match.
\<close>

definition skills_scanned :: "(jsstring \<Rightarrow> jsstring) \<Rightarrow> jsstring \<Rightarrow> resume \<Rightarrow> bool" where
  "skills_scanned wideLower t resume =
     (case resume of
        None \<Rightarrow> False
      | Some r \<Rightarrow>
          (case skills r of
             None \<Rightarrow> False
           | Some ss \<Rightarrow> scanned (\<lambda>s. s \<noteq> None) (\<lambda>s. contains_ci wideLower s t) ss))"

definition entry_present :: "(jsstring \<Rightarrow> jsstring) \<Rightarrow> jsstring \<Rightarrow> Experience option \<Rightarrow> bool" where
  "entry_present wideLower t exp =
     (exp \<noteq> None \<and> title_of exp \<noteq> None
      \<and> (contains_ci wideLower (title_of exp) t \<or> company_of exp \<noteq> None))"

definition entries_scanned :: "(jsstring \<Rightarrow> jsstring) \<Rightarrow> jsstring \<Rightarrow> resume \<Rightarrow> bool" where
  "entries_scanned wideLower t resume =
     (case resume of
        None \<Rightarrow> False
      | Some r \<Rightarrow>
          (case experience r of
             None \<Rightarrow> False
           | Some es \<Rightarrow>
               scanned (entry_present wideLower t)
                 (\<lambda>e. contains_ci wideLower (title_of e) t \<or> contains_ci wideLower (company_of e) t)
                 es))"

text \<open>
  The search callback guards the record, \<^verbatim>\<open>personalInfo\<close>, the name and the email; it
  scans the skills of a record that is not \<^verbatim>\<open>null\<close> only when neither the name nor the
  email matches. The skill and experience callbacks scan unguarded. The location
  callback reads \<^verbatim>\<open>personalInfo\<close> of the record unguarded and guards the location.
\<close>

definition search_readable :: "(jsstring \<Rightarrow> jsstring) \<Rightarrow> jsstring \<Rightarrow> resume \<Rightarrow> bool" where
  "search_readable wideLower t resume =
     (contains_ci wideLower (name_of resume) t \<or> contains_ci wideLower (email_of resume) t
      \<or> resume = None \<or> skills_scanned wideLower t resume)"

definition location_readable :: "resume \<Rightarrow> bool" where
  "location_readable resume =
     (case resume of None \<Rightarrow> False | Some r \<Rightarrow> personalInfo r \<noteq> None)"

text \<open>
  A callback runs on the records that passed the criteria before it. \<open>readable\<close> asks
  of a record, for each active criterion whose callback runs on it, what that callback
  needs.
\<close>

definition readable :: "(jsstring \<Rightarrow> jsstring) \<Rightarrow> state \<Rightarrow> resume \<Rightarrow> bool" where
  "readable wideLower st resume =
     ((searchTerm st \<noteq> [] \<longrightarrow> search_readable wideLower (searchTerm st) resume)
      \<and> (skillFilter st \<noteq> []
           \<and> (searchTerm st = [] \<or> spec_search wideLower (searchTerm st) resume)
           \<longrightarrow> skills_scanned wideLower (skillFilter st) resume)
      \<and> (locationFilter st \<noteq> []
           \<and> (searchTerm st = [] \<or> spec_search wideLower (searchTerm st) resume)
           \<and> (skillFilter st = [] \<or> spec_skill wideLower (skillFilter st) resume)
           \<longrightarrow> location_readable resume)
      \<and> (experienceFilter st \<noteq> []
           \<and> (searchTerm st = [] \<or> spec_search wideLower (searchTerm st) resume)
           \<and> (skillFilter st = [] \<or> spec_skill wideLower (skillFilter st) resume)
           \<and> (locationFilter st = [] \<or> spec_location wideLower (locationFilter st) resume)
           \<longrightarrow> entries_scanned wideLower (experienceFilter st) resume))"

section \<open>Example records\<close>

text \<open>
  The record of the example in section 8 of the specification; the same record without
  a location, with an experience entry that has no title, without its
  \<^verbatim>\<open>personalInfo\<close>, and with the name \<^verbatim>\<open>ECOLE\<close> whose first letter is the capital E with
  acute accent, U+00C9.
\<close>

definition ann_lee :: resume where
  "ann_lee =
     Some \<lparr>personalInfo =
             Some \<lparr>name = Some (js ''Ann Lee''), email = Some (js ''a@x.com''), phone = None,
                   location = Some (js ''Austin'')\<rparr>,
           education = [],
           experience =
             Some [Some \<lparr>title = Some (js ''Engineer''), company = Some (js ''Acme''),
                         duration = [], responsibilities = []\<rparr>],
           projects = [],
           skills = Some [Some (js ''Go''), Some (js ''SQL'')],
           certifications = [],
           fileUrl = []\<rparr>"

definition ann_nowhere :: resume where
  "ann_nowhere =
     Some \<lparr>personalInfo =
             Some \<lparr>name = Some (js ''Ann Lee''), email = Some (js ''a@x.com''), phone = None,
                   location = None\<rparr>,
           education = [],
           experience =
             Some [Some \<lparr>title = Some (js ''Engineer''), company = Some (js ''Acme''),
                         duration = [], responsibilities = []\<rparr>],
           projects = [],
           skills = Some [Some (js ''Go''), Some (js ''SQL'')],
           certifications = [],
           fileUrl = []\<rparr>"

definition ann_untitled :: resume where
  "ann_untitled =
     Some \<lparr>personalInfo =
             Some \<lparr>name = Some (js ''Ann Lee''), email = Some (js ''a@x.com''), phone = None,
                   location = Some (js ''Austin'')\<rparr>,
           education = [],
           experience =
             Some [Some \<lparr>title = None, company = Some (js ''Acme''),
                         duration = [], responsibilities = []\<rparr>],
           projects = [],
           skills = Some [Some (js ''Go''), Some (js ''SQL'')],
           certifications = [],
           fileUrl = []\<rparr>"

definition ann_bare :: resume where
  "ann_bare =
     Some \<lparr>personalInfo = None,
           education = [],
           experience =
             Some [Some \<lparr>title = Some (js ''Engineer''), company = Some (js ''Acme''),
                         duration = [], responsibilities = []\<rparr>],
           projects = [],
           skills = Some [Some (js ''Go''), Some (js ''SQL'')],
           certifications = [],
           fileUrl = []\<rparr>"

definition ecole :: resume where
  "ecole =
     Some \<lparr>personalInfo =
             Some \<lparr>name = Some (201 # js ''COLE''), email = Some (js ''e@x.com''), phone = None,
                   location = Some (js ''Austin'')\<rparr>,
           education = [],
           experience =
             Some [Some \<lparr>title = Some (js ''Engineer''), company = Some (js ''Acme''),
                         duration = [], responsibilities = []\<rparr>],
           projects = [],
           skills = Some [Some (js ''Go''), Some (js ''SQL'')],
           certifications = [],
           fileUrl = []\<rparr>"

section \<open>Strings: the library calls against the specified matching\<close>

lemma includes_str_sublist: "includes_str s t = sublist t s"
  by (induction s) (auto simp: sublist_Cons_right)

lemma capitals_ranges: "capitals = [65..<65 + 26] @ [192..<192 + 23] @ [216..<216 + 7]"
  by (simp add: capitals_def js_def upt_rec_numeral)

lemma smalls_ranges: "smalls = [97..<97 + 26] @ [224..<224 + 23] @ [248..<248 + 7]"
  by (simp add: smalls_def js_def upt_rec_numeral)

lemma map_of_zip_upt:
  "map_of (zip [a..<a + n] [c..<c + n]) u
     = (if a \<le> u \<and> u < a + n then Some (c + (u - a)) else None)"
proof (induction n arbitrary: a c)
  case 0
  then show ?case by simp
next
  case (Suc n)
  have "[a..<a + Suc n] = a # [Suc a..<Suc a + n]"
    by (simp add: upt_rec)
  moreover have "[c..<c + Suc n] = c # [Suc c..<Suc c + n]"
    by (simp add: upt_rec)
  ultimately show ?case
    using Suc.IH [of "Suc a" "Suc c"] by auto
qed

lemma letter_table:
  "map_of (zip capitals smalls) u
     = (if (65 \<le> u \<and> u \<le> 90) \<or> (192 \<le> u \<and> u \<le> 222 \<and> u \<noteq> 215)
        then Some (u + 32) else None)"
proof -
  have z: "zip capitals smalls
      = zip [65..<65 + 26] [97..<97 + 26] @ zip [192..<192 + 23] [224..<224 + 23]
        @ zip [216..<216 + 7] [248..<248 + 7]"
    unfolding capitals_ranges smalls_ranges by simp
  show ?thesis
    unfolding z map_of_append map_of_zip_upt
    by (auto simp: map_add_def)
qed

lemma small_of_toLowerUnit: "small_of u = toLowerUnit u"
  by (simp add: small_of_def toLowerUnit_def letter_table)

lemma ignore_case_toLowerCase: "ignore_case wl s = toLowerCase wl s"
  by (simp add: ignore_case_def toLowerCase_def small_of_toLowerUnit)


lemma contains_ci_includes:
  "contains_ci wl txt t
     = (case txt of
          None \<Rightarrow> False
        | Some s \<Rightarrow> includes_str (toLowerCase wl s) (toLowerCase wl t))"
  by (simp add: contains_ci_def includes_str_sublist ignore_case_toLowerCase
      split: option.splits)




section \<open>Arrays: what \<open>some\<close> and \<open>filter\<close> return, and when\<close>

lemma some_js_spec:
  assumes "\<And>x b. p x = Inr b \<Longrightarrow> b = q x"
  shows "some_js p xs = Inr b \<Longrightarrow> b = list_ex q xs"
proof (induction xs)
  case Nil
  then show ?case by simp
next
  case (Cons x xs)
  then obtain c where c: "p x = Inr c"
    by (cases "p x") auto
  with assms have "c = q x" by blast
  with Cons c show ?case
    by (cases c) auto
qed

lemma some_js_returns:
  assumes "\<And>x b. p x = Inr b \<Longrightarrow> b = hit x"
    and "\<And>x. (\<exists>b. p x = Inr b) = present x"
  shows "(\<exists>b. some_js p xs = Inr b) = scanned present hit xs"
proof (induction xs)
  case Nil
  then show ?case by auto
next
  case (Cons x xs)
  show ?case
  proof (cases "p x")
    case (Inl e)
    then have "\<not> present x"
      using assms(2) [of x] by simp
    with Inl show ?thesis by simp
  next
    case (Inr c)
    then have px: "present x"
      using assms(2) [of x] by blast
    from Inr have "c = hit x"
      by (rule assms(1))
    with Inr px Cons.IH show ?thesis
      by (cases c) auto
  qed
qed

lemma filter_js_spec:
  assumes "\<And>x b. p x = Inr b \<Longrightarrow> b = q x"
  shows "filter_js p xs = Inr ys \<Longrightarrow> ys = filter q xs"
proof (induction xs arbitrary: ys)
  case Nil
  then show ?case by simp
next
  case (Cons x xs)
  then obtain c zs where c: "p x = Inr c" and zs: "filter_js p xs = Inr zs"
    by (auto split: sum.splits)
  with assms have "c = q x" by blast
  with Cons c zs show ?case
    by (cases c) auto
qed

lemma filter_js_returns:
  "(\<exists>ys. filter_js p xs = Inr ys) = (\<forall>x \<in> set xs. \<exists>b. p x = Inr b)"
  by (induction xs) (auto split: sum.splits)

lemma filter_js_total_spec:
  assumes "\<forall>x \<in> set xs. \<exists>b. p x = Inr b" and "\<And>x b. p x = Inr b \<Longrightarrow> b = q x"
  shows "filter_js p xs = Inr (filter q xs)"
proof -
  from assms(1) obtain ys where ys: "filter_js p xs = Inr ys"
    using filter_js_returns [of p xs] by blast
  from filter_js_spec [of p q, OF assms(2) ys] ys show ?thesis by simp
qed

section \<open>The callbacks against the specified criteria\<close>

lemma skillIncludes_spec:
  "skillIncludes wl (toLowerCase wl t) s = Inr b \<Longrightarrow> b = contains_ci wl s t"
  by (auto simp: skillIncludes_def contains_ci_includes split: option.splits)

lemma skillIncludes_returns: "(\<exists>b. skillIncludes wl term s = Inr b) = (s \<noteq> None)"
  by (cases s) (simp_all add: skillIncludes_def)

lemma nameIncludes_spec:
  "truthy (nameIncludes wl (toLowerCase wl t) r) = contains_ci wl (name_of r) t"
  by (simp add: truthy_def nameIncludes_def contains_ci_includes name_of_def
      split: option.splits)

lemma emailIncludes_spec:
  "truthy (emailIncludes wl (toLowerCase wl t) r) = contains_ci wl (email_of r) t"
  by (simp add: truthy_def emailIncludes_def contains_ci_includes email_of_def
      split: option.splits)

lemma skills_some_spec:
  assumes "skills r = Some ss"
    and "some_js (skillIncludes wl (toLowerCase wl t)) ss = Inr b"
  shows "b = list_ex (\<lambda>s. contains_ci wl s t) (skills_of (Some r))"
  using some_js_spec [of "skillIncludes wl (toLowerCase wl t)", OF skillIncludes_spec assms(2)]
    assms(1)
  by (simp add: skills_of_def)

lemma skills_some_returns:
  assumes "skills r = Some ss"
  shows "(\<exists>b. some_js (skillIncludes wl (toLowerCase wl t)) ss = Inr b)
           = skills_scanned wl t (Some r)"
proof -
  have "(\<exists>b. some_js (skillIncludes wl (toLowerCase wl t)) ss = Inr b)
      = scanned (\<lambda>s. s \<noteq> None) (\<lambda>s. contains_ci wl s t) ss"
    by (rule some_js_returns [OF skillIncludes_spec skillIncludes_returns])
  with assms show ?thesis
    by (simp add: skills_scanned_def)
qed

lemma searchMatch_spec:
  assumes "searchMatch wl (toLowerCase wl t) r = Inr b"
  shows "b = spec_search wl t r"
proof (cases "contains_ci wl (name_of r) t \<or> contains_ci wl (email_of r) t")
  case True
  with assms show ?thesis
    by (auto simp: searchMatch_def spec_search_def nameIncludes_spec emailIncludes_spec
        split: if_splits)
next
  case False
  show ?thesis
  proof (cases r)
    case None
    with assms False show ?thesis
      by (simp add: searchMatch_def spec_search_def nameIncludes_spec emailIncludes_spec
          skills_of_def split: if_splits)
  next
    case (Some rec)
    with assms False obtain ss where ss: "skills rec = Some ss"
      and ev: "some_js (skillIncludes wl (toLowerCase wl t)) ss = Inr b"
      by (auto simp: searchMatch_def nameIncludes_spec emailIncludes_spec
          split: option.splits if_splits)
    from skills_some_spec [OF ss ev] False Some show ?thesis
      by (simp add: spec_search_def)
  qed
qed

lemma searchMatch_returns:
  "(\<exists>b. searchMatch wl (toLowerCase wl t) r = Inr b) = search_readable wl t r"
proof (cases "contains_ci wl (name_of r) t \<or> contains_ci wl (email_of r) t")
  case True
  then show ?thesis
    by (auto simp: searchMatch_def search_readable_def nameIncludes_spec emailIncludes_spec)
next
  case False
  show ?thesis
  proof (cases r)
    case None
    with False show ?thesis
      by (auto simp: searchMatch_def search_readable_def nameIncludes_spec emailIncludes_spec)
  next
    case (Some rec)
    show ?thesis
    proof (cases "skills rec")
      case None
      with False Some show ?thesis
        by (simp add: searchMatch_def search_readable_def nameIncludes_spec
            emailIncludes_spec skills_scanned_def)
    next
      case (Some ss)
      from skills_some_returns [OF this, of wl t] False \<open>r = Some rec\<close> Some show ?thesis
        by (simp add: searchMatch_def search_readable_def nameIncludes_spec
            emailIncludes_spec)
    qed
  qed
qed

lemma skillMatch_spec:
  assumes "skillMatch wl t r = Inr b"
  shows "b = spec_skill wl t r"
proof -
  from assms obtain rec ss where "r = Some rec" and ss: "skills rec = Some ss"
    and ev: "some_js (skillIncludes wl (toLowerCase wl t)) ss = Inr b"
    by (auto simp: skillMatch_def split: option.splits)
  with skills_some_spec [OF ss ev] show ?thesis
    by (simp add: spec_skill_def)
qed

lemma skillMatch_returns: "(\<exists>b. skillMatch wl t r = Inr b) = skills_scanned wl t r"
proof (cases r)
  case None
  then show ?thesis
    by (simp add: skillMatch_def skills_scanned_def)
next
  case (Some rec)
  show ?thesis
  proof (cases "skills rec")
    case None
    with \<open>r = Some rec\<close> show ?thesis
      by (simp add: skillMatch_def skills_scanned_def)
  next
    case (Some ss)
    from skills_some_returns [OF this, of wl t] \<open>r = Some rec\<close> Some show ?thesis
      by (simp add: skillMatch_def)
  qed
qed

lemma locationMatch_spec: "locationMatch wl t r = Inr b \<Longrightarrow> b = spec_location wl t r"
  by (auto simp: locationMatch_def spec_location_def location_of_def contains_ci_includes
      split: option.splits)

lemma locationMatch_returns: "(\<exists>b. locationMatch wl t r = Inr b) = location_readable r"
  by (auto simp: locationMatch_def location_readable_def split: option.splits)

lemma expIncludes_spec:
  "expIncludes wl t e = Inr b
     \<Longrightarrow> b = (contains_ci wl (title_of e) t \<or> contains_ci wl (company_of e) t)"
  by (auto simp: expIncludes_def contains_ci_includes title_of_def company_of_def
      split: option.splits if_splits)

lemma expIncludes_returns: "(\<exists>b. expIncludes wl t e = Inr b) = entry_present wl t e"
  by (auto simp: expIncludes_def entry_present_def contains_ci_includes title_of_def
      company_of_def split: option.splits)

lemma experienceMatch_spec:
  assumes "experienceMatch wl t r = Inr b"
  shows "b = spec_experience wl t r"
proof -
  from assms obtain rec es where r: "r = Some rec" and es: "experience rec = Some es"
    and ev: "some_js (expIncludes wl t) es = Inr b"
    by (auto simp: experienceMatch_def split: option.splits)
  from some_js_spec [of "expIncludes wl t", OF expIncludes_spec ev] r es show ?thesis
    by (simp add: spec_experience_def experience_of_def)
qed

lemma experienceMatch_returns:
  "(\<exists>b. experienceMatch wl t r = Inr b) = entries_scanned wl t r"
proof (cases r)
  case None
  then show ?thesis
    by (simp add: experienceMatch_def entries_scanned_def)
next
  case (Some rec)
  show ?thesis
  proof (cases "experience rec")
    case None
    with \<open>r = Some rec\<close> show ?thesis
      by (simp add: experienceMatch_def entries_scanned_def)
  next
    case (Some es)
    have "(\<exists>b. some_js (expIncludes wl t) es = Inr b)
        = scanned (entry_present wl t)
            (\<lambda>e. contains_ci wl (title_of e) t \<or> contains_ci wl (company_of e) t) es"
      by (rule some_js_returns [OF expIncludes_spec expIncludes_returns])
    with \<open>r = Some rec\<close> Some show ?thesis
      by (simp add: experienceMatch_def entries_scanned_def)
  qed
qed

section \<open>The recomputation stage by stage\<close>

lemma stage_spec:
  assumes "\<And>x b. p x = Inr b \<Longrightarrow> b = q x"
    and "(if active then filter_js p xs else Inr xs) = Inr ys"
  shows "ys = (if active then filter q xs else xs)"
proof (cases active)
  case True
  with assms(2) have "filter_js p xs = Inr ys" by simp
  from filter_js_spec [of p q, OF assms(1) this] True show ?thesis by simp
next
  case False
  with assms(2) show ?thesis by simp
qed

lemma stage_total:
  assumes "active \<Longrightarrow> \<forall>x \<in> set xs. \<exists>b. p x = Inr b"
    and "\<And>x b. p x = Inr b \<Longrightarrow> b = q x"
  shows "(if active then filter_js p xs else Inr xs) = Inr (if active then filter q xs else xs)"
proof (cases active)
  case True
  with assms(1) have "\<forall>x \<in> set xs. \<exists>b. p x = Inr b" by simp
  from filter_js_total_spec [of xs p q, OF this assms(2)] True show ?thesis by simp
next
  case False
  then show ?thesis by simp
qed

lemma stage_returns:
  assumes "(if active then filter_js p xs else Inr xs) = Inr ys" and "active" and "x \<in> set xs"
  shows "\<exists>b. p x = Inr b"
proof -
  from assms(1,2) have "\<exists>ys. filter_js p xs = Inr ys" by simp
  with assms(3) show ?thesis
    by (simp add: filter_js_returns)
qed

lemma sum_case_InrD:
  "(case m of Inl e \<Rightarrow> Inl e | Inr x \<Rightarrow> k x) = Inr y \<Longrightarrow> \<exists>x. m = Inr x \<and> k x = Inr y"
  by (cases m) auto

lemma filterEffect_stages:
  assumes "filterEffect wl st = Inr st'"
  obtains f1 f2 f3 f4 where
    "(if searchTerm st \<noteq> []
      then filter_js (searchMatch wl (toLowerCase wl (searchTerm st))) (resumes st)
      else Inr (resumes st)) = Inr f1"
    and "(if skillFilter st \<noteq> [] then filter_js (skillMatch wl (skillFilter st)) f1
          else Inr f1) = Inr f2"
    and "(if locationFilter st \<noteq> [] then filter_js (locationMatch wl (locationFilter st)) f2
          else Inr f2) = Inr f3"
    and "(if experienceFilter st \<noteq> []
          then filter_js (experienceMatch wl (experienceFilter st)) f3
          else Inr f3) = Inr f4"
    and "st' = st\<lparr>filteredResumes := f4\<rparr>"
proof -
  from assms [unfolded filterEffect_def] obtain f1 where
    e1: "(if searchTerm st \<noteq> []
      then filter_js (searchMatch wl (toLowerCase wl (searchTerm st))) (resumes st)
      else Inr (resumes st)) = Inr f1"
    and r1: "(case (if skillFilter st \<noteq> [] then filter_js (skillMatch wl (skillFilter st)) f1
          else Inr f1) of Inl e \<Rightarrow> Inl e
      | Inr filtered2 \<Rightarrow>
     (case (if locationFilter st \<noteq> []
            then filter_js (locationMatch wl (locationFilter st)) filtered2
            else Inr filtered2) of
        Inl e \<Rightarrow> Inl e
      | Inr filtered3 \<Rightarrow>
     (case (if experienceFilter st \<noteq> []
            then filter_js (experienceMatch wl (experienceFilter st)) filtered3
            else Inr filtered3) of
        Inl e \<Rightarrow> Inl e
      | Inr filtered4 \<Rightarrow> Inr (st\<lparr>filteredResumes := filtered4\<rparr>)))) = Inr st'"
    by (blast dest: sum_case_InrD)
  from r1 obtain f2 where
    e2: "(if skillFilter st \<noteq> [] then filter_js (skillMatch wl (skillFilter st)) f1
          else Inr f1) = Inr f2"
    and r2: "(case (if locationFilter st \<noteq> []
            then filter_js (locationMatch wl (locationFilter st)) f2
            else Inr f2) of
        Inl e \<Rightarrow> Inl e
      | Inr filtered3 \<Rightarrow>
     (case (if experienceFilter st \<noteq> []
            then filter_js (experienceMatch wl (experienceFilter st)) filtered3
            else Inr filtered3) of
        Inl e \<Rightarrow> Inl e
      | Inr filtered4 \<Rightarrow> Inr (st\<lparr>filteredResumes := filtered4\<rparr>))) = Inr st'"
    by (blast dest: sum_case_InrD)
  from r2 obtain f3 where
    e3: "(if locationFilter st \<noteq> []
            then filter_js (locationMatch wl (locationFilter st)) f2
            else Inr f2) = Inr f3"
    and r3: "(case (if experienceFilter st \<noteq> []
            then filter_js (experienceMatch wl (experienceFilter st)) f3
            else Inr f3) of
        Inl e \<Rightarrow> Inl e
      | Inr filtered4 \<Rightarrow> Inr (st\<lparr>filteredResumes := filtered4\<rparr>)) = Inr st'"
    by (blast dest: sum_case_InrD)
  from r3 obtain f4 where
    e4: "(if experienceFilter st \<noteq> []
            then filter_js (experienceMatch wl (experienceFilter st)) f3
            else Inr f3) = Inr f4"
    and r4: "Inr (st\<lparr>filteredResumes := f4\<rparr>) = (Inr st' :: js_error + state)"
    by (blast dest: sum_case_InrD)
  from r4 have "st' = st\<lparr>filteredResumes := f4\<rparr>" by simp
  with e1 e2 e3 e4 that show thesis by blast
qed

text \<open>
  When the recomputation returns, each stage has produced the specified list and its
  callback has returned on every record of its input.
\<close>

lemma filterEffect_Inr_views:
  assumes "filterEffect wl st = Inr st'"
  shows "st' = st\<lparr>filteredResumes := spec_view wl st\<rparr>"
    and "r \<in> set (resumes st) \<Longrightarrow> readable wl st r"
proof -
  let ?v1 = "if searchTerm st \<noteq> [] then filter (spec_search wl (searchTerm st)) (resumes st)
             else resumes st"
  let ?v2 = "if skillFilter st \<noteq> [] then filter (spec_skill wl (skillFilter st)) ?v1 else ?v1"
  let ?v3 = "if locationFilter st \<noteq> [] then filter (spec_location wl (locationFilter st)) ?v2
             else ?v2"
  let ?v4 = "if experienceFilter st \<noteq> []
             then filter (spec_experience wl (experienceFilter st)) ?v3 else ?v3"
  from assms obtain f1 f2 f3 f4 where
    e1: "(if searchTerm st \<noteq> []
      then filter_js (searchMatch wl (toLowerCase wl (searchTerm st))) (resumes st)
      else Inr (resumes st)) = Inr f1"
    and e2: "(if skillFilter st \<noteq> [] then filter_js (skillMatch wl (skillFilter st)) f1
          else Inr f1) = Inr f2"
    and e3: "(if locationFilter st \<noteq> [] then filter_js (locationMatch wl (locationFilter st)) f2
          else Inr f2) = Inr f3"
    and e4: "(if experienceFilter st \<noteq> []
          then filter_js (experienceMatch wl (experienceFilter st)) f3
          else Inr f3) = Inr f4"
    and st': "st' = st\<lparr>filteredResumes := f4\<rparr>"
    by (rule filterEffect_stages)
  have v1: "f1 = ?v1"
    by (rule stage_spec [OF searchMatch_spec e1])
  have v2: "f2 = (if skillFilter st \<noteq> [] then filter (spec_skill wl (skillFilter st)) f1 else f1)"
    by (rule stage_spec [OF skillMatch_spec e2])
  have v3: "f3 = (if locationFilter st \<noteq> [] then filter (spec_location wl (locationFilter st)) f2
                  else f2)"
    by (rule stage_spec [OF locationMatch_spec e3])
  have v4: "f4 = (if experienceFilter st \<noteq> []
                  then filter (spec_experience wl (experienceFilter st)) f3 else f3)"
    by (rule stage_spec [OF experienceMatch_spec e4])
  have "f4 = spec_view wl st"
    unfolding spec_view_def Let_def v4 v3 v2 v1 ..
  with st' show "st' = st\<lparr>filteredResumes := spec_view wl st\<rparr>" by simp
  assume r: "r \<in> set (resumes st)"
  have s1: "search_readable wl (searchTerm st) r" if "searchTerm st \<noteq> []"
    using stage_returns [OF e1 that r] by (simp add: searchMatch_returns)
  have s2: "skills_scanned wl (skillFilter st) r"
    if "skillFilter st \<noteq> []" and "searchTerm st = [] \<or> spec_search wl (searchTerm st) r"
  proof -
    from that(2) r have "r \<in> set f1" unfolding v1 by auto
    from stage_returns [OF e2 that(1) this] show ?thesis
      by (simp add: skillMatch_returns)
  qed
  have s3: "location_readable r"
    if "locationFilter st \<noteq> []" and "searchTerm st = [] \<or> spec_search wl (searchTerm st) r"
      and "skillFilter st = [] \<or> spec_skill wl (skillFilter st) r"
  proof -
    from that(2,3) r have "r \<in> set f2" unfolding v2 v1 by auto
    from stage_returns [OF e3 that(1) this] show ?thesis
      by (simp add: locationMatch_returns)
  qed
  have s4: "entries_scanned wl (experienceFilter st) r"
    if "experienceFilter st \<noteq> []" and "searchTerm st = [] \<or> spec_search wl (searchTerm st) r"
      and "skillFilter st = [] \<or> spec_skill wl (skillFilter st) r"
      and "locationFilter st = [] \<or> spec_location wl (locationFilter st) r"
  proof -
    from that(2,3,4) r have "r \<in> set f3" unfolding v3 v2 v1 by auto
    from stage_returns [OF e4 that(1) this] show ?thesis
      by (simp add: experienceMatch_returns)
  qed
  from s1 s2 s3 s4 show "readable wl st r"
    unfolding readable_def by blast
qed

lemma filterEffect_Inr_spec:
  "filterEffect wl st = Inr st' \<Longrightarrow> st' = st\<lparr>filteredResumes := spec_view wl st\<rparr>"
  by (rule filterEffect_Inr_views(1))

lemma stage_filter: "(if a then filter q xs else xs) = filter (\<lambda>x. a \<longrightarrow> q x) xs"
  by simp

lemma spec_view_filter: "spec_view wl st = filter (spec_passes wl st) (resumes st)"
  unfolding spec_view_def Let_def stage_filter filter_filter
  by (rule filter_cong) (auto simp: spec_passes_def)

text \<open>The recomputation returns on a collection of readable records.\<close>

lemma filterEffect_readable_spec:
  assumes "\<forall>r \<in> set (resumes st). readable wl st r"
  shows "filterEffect wl st = Inr (st\<lparr>filteredResumes := spec_view wl st\<rparr>)"
proof -
  let ?v1 = "if searchTerm st \<noteq> [] then filter (spec_search wl (searchTerm st)) (resumes st)
             else resumes st"
  let ?v2 = "if skillFilter st \<noteq> [] then filter (spec_skill wl (skillFilter st)) ?v1 else ?v1"
  let ?v3 = "if locationFilter st \<noteq> [] then filter (spec_location wl (locationFilter st)) ?v2
             else ?v2"
  let ?v4 = "if experienceFilter st \<noteq> []
             then filter (spec_experience wl (experienceFilter st)) ?v3 else ?v3"
  have t1: "\<forall>x \<in> set (resumes st).
      \<exists>b. searchMatch wl (toLowerCase wl (searchTerm st)) x = Inr b"
    if "searchTerm st \<noteq> []"
    using assms that by (simp add: searchMatch_returns readable_def)
  have t2: "\<forall>x \<in> set ?v1. \<exists>b. skillMatch wl (skillFilter st) x = Inr b"
    if "skillFilter st \<noteq> []"
    using assms that by (auto simp: skillMatch_returns readable_def)
  have t3: "\<forall>x \<in> set ?v2. \<exists>b. locationMatch wl (locationFilter st) x = Inr b"
    if "locationFilter st \<noteq> []"
    using assms that by (auto simp: locationMatch_returns readable_def)
  have t4: "\<forall>x \<in> set ?v3. \<exists>b. experienceMatch wl (experienceFilter st) x = Inr b"
    if "experienceFilter st \<noteq> []"
    using assms that by (auto simp: experienceMatch_returns readable_def)
  have e1: "(if searchTerm st \<noteq> []
      then filter_js (searchMatch wl (toLowerCase wl (searchTerm st))) (resumes st)
      else Inr (resumes st)) = Inr ?v1"
    by (rule stage_total [OF t1 searchMatch_spec])
  have e2: "(if skillFilter st \<noteq> [] then filter_js (skillMatch wl (skillFilter st)) ?v1
          else Inr ?v1) = Inr ?v2"
    by (rule stage_total [OF t2 skillMatch_spec])
  have e3: "(if locationFilter st \<noteq> [] then filter_js (locationMatch wl (locationFilter st)) ?v2
          else Inr ?v2) = Inr ?v3"
    by (rule stage_total [OF t3 locationMatch_spec])
  have e4: "(if experienceFilter st \<noteq> []
          then filter_js (experienceMatch wl (experienceFilter st)) ?v3
          else Inr ?v3) = Inr ?v4"
    by (rule stage_total [OF t4 experienceMatch_spec])
  have "filterEffect wl st = Inr (st\<lparr>filteredResumes := ?v4\<rparr>)"
    unfolding filterEffect_def e1 sum.case e2 e3 e4 ..
  then show ?thesis
    by (simp add: spec_view_def Let_def)
qed

text \<open>The recomputation returns exactly on the collections of readable records.\<close>

lemma filterEffect_returns_iff:
  "(\<exists>st'. filterEffect wl st = Inr st') = list_all (readable wl st) (resumes st)"
proof
  assume "\<exists>st'. filterEffect wl st = Inr st'"
  then obtain st' where "filterEffect wl st = Inr st'" ..
  then have "\<And>r. r \<in> set (resumes st) \<Longrightarrow> readable wl st r"
    by (rule filterEffect_Inr_views(2))
  then show "list_all (readable wl st) (resumes st)"
    by (simp add: list_all_iff)
next
  assume "list_all (readable wl st) (resumes st)"
  then have "\<forall>r \<in> set (resumes st). readable wl st r"
    by (simp add: list_all_iff)
  then have "filterEffect wl st = Inr (st\<lparr>filteredResumes := spec_view wl st\<rparr>)"
    by (rule filterEffect_readable_spec)
  then show "\<exists>st'. filterEffect wl st = Inr st'" ..
qed

text \<open>A record of the shape \<open>tolerated\<close> is readable under every criteria.\<close>

lemma scanned_all: "list_all present xs \<Longrightarrow> scanned present hit xs"
  by (induction xs) auto

lemma tolerated_exp_entry_present: "tolerated_exp e \<Longrightarrow> entry_present wl t e"
  by (auto simp: tolerated_exp_def entry_present_def title_of_def company_of_def
      split: option.splits)

lemma tolerated_readable:
  assumes "tolerated r"
  shows "readable wl st r"
proof -
  from assms obtain rec ss es where r: "r = Some rec" and p: "personalInfo rec \<noteq> None"
    and ss: "skills rec = Some ss" "list_all (\<lambda>s. s \<noteq> None) ss"
    and es: "experience rec = Some es" "list_all tolerated_exp es"
    by (auto simp: tolerated_def split: option.splits)
  from es(2) have "list_all (entry_present wl t) es" for t
    by (auto simp: list_all_iff intro: tolerated_exp_entry_present)
  then have e: "entries_scanned wl t r" for t
    using r es(1) by (simp add: entries_scanned_def scanned_all)
  have s: "skills_scanned wl t r" for t
    using r ss by (simp add: skills_scanned_def scanned_all)
  have l: "location_readable r"
    using r p by (simp add: location_readable_def)
  from s e l show ?thesis
    by (simp add: readable_def search_readable_def)
qed

lemma filterEffect_total:
  assumes "list_all tolerated (resumes st)"
  shows "filterEffect wl st = Inr (st\<lparr>filteredResumes := spec_view wl st\<rparr>)"
proof -
  from assms have "\<forall>r \<in> set (resumes st). readable wl st r"
    by (simp add: list_all_iff tolerated_readable)
  then show ?thesis by (rule filterEffect_readable_spec)
qed

section \<open>Facts shared by the properties\<close>

lemmas run_simps = filterEffect_def searchMatch_def skillMatch_def locationMatch_def
  experienceMatch_def expIncludes_def skillIncludes_def nameIncludes_def emailIncludes_def
  truthy_def toLowerCase_def toLowerUnit_def latin1_def js_def initial_state_def

lemma length_filter_mono:
  "(\<And>x. P x \<Longrightarrow> Q x) \<Longrightarrow> length (filter P xs) \<le> length (filter Q xs)"
  by (induction xs) auto

lemma resumes_set_criterion: "resumes (set_criterion k v st) = resumes st"
  by (cases k) simp_all

lemma spec_passes_set_criterion:
  "get_criterion k st = [] \<Longrightarrow> spec_passes wl (set_criterion k v st) r \<Longrightarrow> spec_passes wl st r"
  by (cases k) (auto simp: spec_passes_def)

text \<open>
  A capital outside A..Z is lower-cased too: the name \<^verbatim>\<open>ECOLE\<close> with the capital E with
  acute accent (U+00C9) is kept for the search text with the small one (U+00E9).
\<close>

lemma capital_beyond_ascii_matches:
  "filterEffect wl (initial_state\<lparr>resumes := [ecole], searchTerm := 233 # js ''cole''\<rparr>)
     = Inr (initial_state\<lparr>resumes := [ecole], searchTerm := 233 # js ''cole'',
                          filteredResumes := [ecole]\<rparr>)"
  by (simp add: filterEffect_def searchMatch_def nameIncludes_def truthy_def toLowerCase_def
      toLowerUnit_def latin1_def js_def initial_state_def ecole_def)

text \<open>
  The two guards of the same part disagree: the search callback reads
  \<^verbatim>\<open>resume?.personalInfo?.name\<close>, the location callback reads
  \<^verbatim>\<open>resume.personalInfo.location\<close>. A record without \<^verbatim>\<open>personalInfo\<close> passes through
  the first and makes the second throw.
\<close>

lemma search_tolerates_missing_personalInfo:
  "filterEffect wl (initial_state\<lparr>resumes := [ann_bare], searchTerm := js ''sql''\<rparr>)
     = Inr (initial_state\<lparr>resumes := [ann_bare], searchTerm := js ''sql'',
                          filteredResumes := [ann_bare]\<rparr>)"
  by (simp add: run_simps ann_bare_def)

lemma location_throws_on_missing_personalInfo:
  "filterEffect wl (initial_state\<lparr>resumes := [ann_bare], locationFilter := js ''austin''\<rparr>)
     = Inl TypeError"
  by (simp add: run_simps ann_bare_def)

section \<open>The filter engine\<close>



text \<open>
  The claim that no missing text field makes the recomputation throw fails as stated:
  an experience entry without a title makes the experience callback throw, since
  \<^verbatim>\<open>exp.title.toLowerCase()\<close> is read without a guard.
\<close>

theorem untitled_experience_throws:
  "filterEffect id
     (initial_state\<lparr>resumes := [ann_untitled], experienceFilter := js ''acme''\<rparr>)
     = Inl TypeError"
  by (simp add: run_simps ann_untitled_def)

text \<open>
  C2, as amended: the filter recomputation does not throw when every record has what
  the callbacks that run on it read without a guard (\<open>readable\<close>). The callback of an
  active criterion runs on the records that passed the criteria before it. Under the
  search term a \<^verbatim>\<open>null\<close> record, a record without \<^verbatim>\<open>personalInfo\<close> and a missing name or
  email are guarded; the skills are scanned only when neither name nor email matches,
  and then the skills array and each skill up to the first matching one must be
  present. Under the skill filter the record, its skills array and each skill up to
  the first matching one must be present. Under the location filter the record and
  its \<^verbatim>\<open>personalInfo\<close> must be present; a missing location is guarded. Under the
  experience filter the record, its experience array and, for each entry up to the
  first matching one, the entry, its title and (when the title does not match) its
  company must be present. Whenever the recomputation returns, a missing text has
  matched nothing: every record of the filtered view passes each active criterion
  through a text that is present, so with a non-empty location filter it has a
  location, and with a non-empty search term a record without a name (without an
  email) is there because its email (its name) or one of its skills contains the term.
\<close>

theorem missing_text_tolerated:
  "(list_all (readable wl st) (resumes st) \<longrightarrow> (\<exists>st'. filterEffect wl st = Inr st'))
   \<and> (filterEffect wl st = Inr st' \<longrightarrow>
        list_all (\<lambda>r.
          spec_passes wl st r
          \<and> (locationFilter st \<noteq> [] \<longrightarrow> location_of r \<noteq> None)
          \<and> (searchTerm st \<noteq> [] \<and> name_of r = None \<longrightarrow>
                contains_ci wl (email_of r) (searchTerm st)
                \<or> list_ex (\<lambda>s. contains_ci wl s (searchTerm st)) (skills_of r))
          \<and> (searchTerm st \<noteq> [] \<and> email_of r = None \<longrightarrow>
                contains_ci wl (name_of r) (searchTerm st)
                \<or> list_ex (\<lambda>s. contains_ci wl s (searchTerm st)) (skills_of r)))
        (filteredResumes st'))"
proof (intro conjI impI)
  assume "list_all (readable wl st) (resumes st)"
  then show "\<exists>st'. filterEffect wl st = Inr st'"
    by (simp only: filterEffect_returns_iff)
next
  assume "filterEffect wl st = Inr st'"
  then have "st' = st\<lparr>filteredResumes := spec_view wl st\<rparr>"
    by (rule filterEffect_Inr_spec)
  then have v: "filteredResumes st' = filter (spec_passes wl st) (resumes st)"
    by (simp add: spec_view_filter)
  show "list_all (\<lambda>r.
          spec_passes wl st r
          \<and> (locationFilter st \<noteq> [] \<longrightarrow> location_of r \<noteq> None)
          \<and> (searchTerm st \<noteq> [] \<and> name_of r = None \<longrightarrow>
                contains_ci wl (email_of r) (searchTerm st)
                \<or> list_ex (\<lambda>s. contains_ci wl s (searchTerm st)) (skills_of r))
          \<and> (searchTerm st \<noteq> [] \<and> email_of r = None \<longrightarrow>
                contains_ci wl (name_of r) (searchTerm st)
                \<or> list_ex (\<lambda>s. contains_ci wl s (searchTerm st)) (skills_of r)))
        (filteredResumes st')"
    unfolding v
    by (auto simp: list_all_iff spec_passes_def spec_search_def spec_location_def
        contains_ci_def split: option.splits)
qed

theorem missing_text_tolerated_witness:
  "list_all (readable id
       (initial_state\<lparr>resumes := [None, ann_bare, ann_lee], searchTerm := js ''ann''\<rparr>))
     [None, ann_bare, ann_lee]
   \<and> filterEffect id
        (initial_state\<lparr>resumes := [None, ann_bare, ann_lee], searchTerm := js ''ann''\<rparr>)
       = Inr (initial_state\<lparr>resumes := [None, ann_bare, ann_lee], searchTerm := js ''ann'',
                            filteredResumes := [ann_lee]\<rparr>)
   \<and> list_all (readable id
       (initial_state\<lparr>resumes := [ann_untitled, ann_nowhere], locationFilter := js ''austin''\<rparr>))
     [ann_untitled, ann_nowhere]
   \<and> filterEffect id
        (initial_state\<lparr>resumes := [ann_untitled, ann_nowhere], locationFilter := js ''austin''\<rparr>)
       = Inr (initial_state\<lparr>resumes := [ann_untitled, ann_nowhere],
                            locationFilter := js ''austin'',
                            filteredResumes := [ann_untitled]\<rparr>)
   \<and> location_of ann_nowhere = None \<and> location_of ann_untitled \<noteq> None"
proof -
  let ?A = "initial_state\<lparr>resumes := [None, ann_bare, ann_lee], searchTerm := js ''ann''\<rparr>"
  let ?A' = "initial_state\<lparr>resumes := [None, ann_bare, ann_lee], searchTerm := js ''ann'',
                            filteredResumes := [ann_lee]\<rparr>"
  let ?B = "initial_state\<lparr>resumes := [ann_untitled, ann_nowhere],
                           locationFilter := js ''austin''\<rparr>"
  let ?B' = "initial_state\<lparr>resumes := [ann_untitled, ann_nowhere],
                            locationFilter := js ''austin'',
                            filteredResumes := [ann_untitled]\<rparr>"
  have ra: "list_all (readable id ?A) [None, ann_bare, ann_lee]"
    by (simp add: readable_def search_readable_def skills_scanned_def initial_state_def
        ann_bare_def ann_lee_def js_def)
  have rb: "list_all (readable id ?B) [ann_untitled, ann_nowhere]"
    by (simp add: readable_def location_readable_def initial_state_def
        ann_untitled_def ann_nowhere_def js_def)
  have runa: "filterEffect id ?A = Inr ?A'"
    by (simp add: run_simps ann_bare_def ann_lee_def)
  have runb: "filterEffect id ?B = Inr ?B'"
    by (simp add: run_simps ann_untitled_def ann_nowhere_def)
  from ra have "list_all (readable id ?A) (resumes ?A)" by simp
  with missing_text_tolerated [of id ?A ?A'] have "\<exists>st'. filterEffect id ?A = Inr st'"
    by blast
  have "filterEffect id ?B = Inr ?B' \<longrightarrow>
      list_all (\<lambda>r. spec_passes id ?B r
          \<and> (locationFilter ?B \<noteq> [] \<longrightarrow> location_of r \<noteq> None)
          \<and> (searchTerm ?B \<noteq> [] \<and> name_of r = None \<longrightarrow>
                contains_ci id (email_of r) (searchTerm ?B)
                \<or> list_ex (\<lambda>s. contains_ci id s (searchTerm ?B)) (skills_of r))
          \<and> (searchTerm ?B \<noteq> [] \<and> email_of r = None \<longrightarrow>
                contains_ci id (name_of r) (searchTerm ?B)
                \<or> list_ex (\<lambda>s. contains_ci id s (searchTerm ?B)) (skills_of r)))
        (filteredResumes ?B')"
    using missing_text_tolerated [of id ?B ?B'] by (rule conjunct2)
  with runb have "list_all (\<lambda>r. locationFilter ?B \<noteq> [] \<longrightarrow> location_of r \<noteq> None)
      (filteredResumes ?B')"
    by (simp add: list_all_iff)
  then have lu: "location_of ann_untitled \<noteq> None"
    by (simp add: initial_state_def js_def)
  have ln: "location_of ann_nowhere = None"
    by (simp add: ann_nowhere_def location_of_def)
  from ra rb runa runb lu ln show ?thesis by blast
qed

text \<open>
  C3: the filtered view is a subsequence of the collection. Whenever the recomputation
  returns, the collection is unchanged, the filtered view is obtained from it by deleting
  records (so the records keep their relative order) and every record of the view is a
  record of the collection; on a collection of the shape \<open>tolerated\<close> it returns.
\<close>

theorem filtered_view_subsequence:
  "(filterEffect wl st = Inr st' \<longrightarrow>
      resumes st' = resumes st
      \<and> subseq (filteredResumes st') (resumes st')
      \<and> set (filteredResumes st') \<subseteq> set (resumes st'))
   \<and> (list_all tolerated (resumes st) \<longrightarrow> (\<exists>st'. filterEffect wl st = Inr st'))"
proof (intro conjI impI)
  assume "filterEffect wl st = Inr st'"
  then have "st' = st\<lparr>filteredResumes := spec_view wl st\<rparr>"
    by (rule filterEffect_Inr_spec)
  then have st': "st' = st\<lparr>filteredResumes := filter (spec_passes wl st) (resumes st)\<rparr>"
    by (simp only: spec_view_filter)
  show "resumes st' = resumes st"
    by (simp add: st')
  show "subseq (filteredResumes st') (resumes st')"
    by (simp add: st')
  show "set (filteredResumes st') \<subseteq> set (resumes st')"
    by (simp add: st')
next
  assume "list_all tolerated (resumes st)"
  then show "\<exists>st'. filterEffect wl st = Inr st'"
    by (blast dest: filterEffect_total)
qed

theorem filtered_view_subsequence_witness:
  "filterEffect id (initial_state\<lparr>resumes := [ann_nowhere, ann_lee], locationFilter := js ''austin''\<rparr>)
     = Inr (initial_state\<lparr>resumes := [ann_nowhere, ann_lee], locationFilter := js ''austin'',
                          filteredResumes := [ann_lee]\<rparr>)
   \<and> subseq [ann_lee] [ann_nowhere, ann_lee]"
proof -
  let ?S = "initial_state\<lparr>resumes := [ann_nowhere, ann_lee], locationFilter := js ''austin''\<rparr>"
  let ?S' = "initial_state\<lparr>resumes := [ann_nowhere, ann_lee], locationFilter := js ''austin'',
                          filteredResumes := [ann_lee]\<rparr>"
  have run: "filterEffect id ?S = Inr ?S'"
    by (simp add: run_simps ann_lee_def ann_nowhere_def)
  have "filterEffect id ?S = Inr ?S' \<longrightarrow>
      resumes ?S' = resumes ?S
      \<and> subseq (filteredResumes ?S') (resumes ?S')
      \<and> set (filteredResumes ?S') \<subseteq> set (resumes ?S')"
    using filtered_view_subsequence [of id ?S ?S'] by (rule conjunct1)
  with run have "subseq (filteredResumes ?S') (resumes ?S')"
    by blast
  then have "subseq [ann_lee] [ann_nowhere, ann_lee]"
    by (simp add: initial_state_def)
  with run show ?thesis by (rule_tac conjI)
qed

text \<open>
  C4: when the search term, the skill filter, the location filter and the experience
  filter are all empty, the recomputation returns and the filtered view equals the
  collection, whatever the records are.
\<close>

theorem empty_criteria_keep_collection:
  assumes "searchTerm st = []" and "skillFilter st = []"
    and "locationFilter st = []" and "experienceFilter st = []"
  shows "filterEffect wl st = Inr (st\<lparr>filteredResumes := resumes st\<rparr>)"
  using assms by (simp add: filterEffect_def)

theorem empty_criteria_keep_collection_witness:
  "searchTerm (initial_state\<lparr>resumes := [None, ann_untitled]\<rparr>) = []
   \<and> skillFilter (initial_state\<lparr>resumes := [None, ann_untitled]\<rparr>) = []
   \<and> locationFilter (initial_state\<lparr>resumes := [None, ann_untitled]\<rparr>) = []
   \<and> experienceFilter (initial_state\<lparr>resumes := [None, ann_untitled]\<rparr>) = []
   \<and> filterEffect id (initial_state\<lparr>resumes := [None, ann_untitled]\<rparr>)
       = Inr (initial_state\<lparr>resumes := [None, ann_untitled],
                            filteredResumes := [None, ann_untitled]\<rparr>)"
proof -
  let ?S = "initial_state\<lparr>resumes := [None, ann_untitled]\<rparr>"
  have h: "searchTerm ?S = []" "skillFilter ?S = []" "locationFilter ?S = []"
    "experienceFilter ?S = []"
    by (simp_all add: initial_state_def)
  from empty_criteria_keep_collection [OF h]
  have "filterEffect id ?S = Inr (?S\<lparr>filteredResumes := resumes ?S\<rparr>)" .
  then have "filterEffect id ?S = Inr (?S\<lparr>filteredResumes := [None, ann_untitled]\<rparr>)"
    by simp
  with h show ?thesis by simp
qed

text \<open>
  C5: making one more criterion non-empty never increases the size of the filtered
  view. For a criterion \<open>k\<close> that is empty in \<open>st\<close> and a non-empty text \<open>v\<close>, when
  the recomputation returns before and after \<open>k\<close> is set to \<open>v\<close>, the view after
  has at most as many records as the view before; on a collection of the shape
  \<open>tolerated\<close> both recomputations return. This holds for every text \<open>v\<close>, so in
  particular for one that matches no record of the current view.
\<close>

theorem adding_criterion_never_grows:
  assumes "get_criterion k st = []" and "v \<noteq> []"
  shows "(filterEffect wl st = Inr s1 \<and> filterEffect wl (set_criterion k v st) = Inr s2 \<longrightarrow>
            length (filteredResumes s2) \<le> length (filteredResumes s1))
         \<and> (list_all tolerated (resumes st) \<longrightarrow>
              (\<exists>t1 t2. filterEffect wl st = Inr t1
                 \<and> filterEffect wl (set_criterion k v st) = Inr t2))"
proof (intro conjI impI)
  assume both: "filterEffect wl st = Inr s1 \<and> filterEffect wl (set_criterion k v st) = Inr s2"
  from both have "s1 = st\<lparr>filteredResumes := spec_view wl st\<rparr>"
    by (blast intro: filterEffect_Inr_spec)
  then have v1: "filteredResumes s1 = filter (spec_passes wl st) (resumes st)"
    by (simp add: spec_view_filter)
  from both have "s2 = (set_criterion k v st)
      \<lparr>filteredResumes := spec_view wl (set_criterion k v st)\<rparr>"
    by (blast intro: filterEffect_Inr_spec)
  then have v2: "filteredResumes s2
      = filter (spec_passes wl (set_criterion k v st)) (resumes st)"
    by (simp add: spec_view_filter resumes_set_criterion)
  show "length (filteredResumes s2) \<le> length (filteredResumes s1)"
    unfolding v1 v2
    by (rule length_filter_mono) (rule spec_passes_set_criterion [OF assms(1)])
next
  assume tol: "list_all tolerated (resumes st)"
  then have "list_all tolerated (resumes (set_criterion k v st))"
    by (simp add: resumes_set_criterion)
  with tol show "\<exists>t1 t2. filterEffect wl st = Inr t1
      \<and> filterEffect wl (set_criterion k v st) = Inr t2"
    by (blast dest: filterEffect_total)
qed

theorem adding_criterion_never_grows_witness:
  "get_criterion Skill (initial_state\<lparr>resumes := [ann_lee], searchTerm := js ''ann''\<rparr>) = []
   \<and> js ''java'' \<noteq> []
   \<and> filterEffect id (initial_state\<lparr>resumes := [ann_lee], searchTerm := js ''ann''\<rparr>)
       = Inr (initial_state\<lparr>resumes := [ann_lee], searchTerm := js ''ann'',
                            filteredResumes := [ann_lee]\<rparr>)
   \<and> filterEffect id (set_criterion Skill (js ''java'')
         (initial_state\<lparr>resumes := [ann_lee], searchTerm := js ''ann''\<rparr>))
       = Inr (initial_state\<lparr>resumes := [ann_lee], searchTerm := js ''ann'', skillFilter := js ''java'',
                            filteredResumes := []\<rparr>)
   \<and> length ([] :: resume list) \<le> length [ann_lee]"
proof -
  let ?S = "initial_state\<lparr>resumes := [ann_lee], searchTerm := js ''ann''\<rparr>"
  let ?S1 = "initial_state\<lparr>resumes := [ann_lee], searchTerm := js ''ann'',
                            filteredResumes := [ann_lee]\<rparr>"
  let ?S2 = "initial_state\<lparr>resumes := [ann_lee], searchTerm := js ''ann'', skillFilter := js ''java'',
                            filteredResumes := []\<rparr>"
  have h1: "get_criterion Skill ?S = []"
    by (simp add: initial_state_def)
  have h2: "js ''java'' \<noteq> []" by (simp add: js_def)
  have r1: "filterEffect id ?S = Inr ?S1"
    by (simp add: run_simps ann_lee_def)
  have r2: "filterEffect id (set_criterion Skill (js ''java'') ?S) = Inr ?S2"
    by (simp add: run_simps ann_lee_def)
  have "filterEffect id ?S = Inr ?S1 \<and> filterEffect id (set_criterion Skill (js ''java'') ?S) = Inr ?S2
      \<longrightarrow> length (filteredResumes ?S2) \<le> length (filteredResumes ?S1)"
    using adding_criterion_never_grows [OF h1 h2, of id ?S1 ?S2] by (rule conjunct1)
  with r1 r2 have "length (filteredResumes ?S2) \<le> length (filteredResumes ?S1)"
    by blast
  then have "length ([] :: resume list) \<le> length [ann_lee]"
    by (simp add: initial_state_def)
  with h1 h2 r1 r2 show ?thesis by blast
qed

section \<open>The filter mode and the clear action\<close>

text \<open>
  C6: switching the filter mode to \<^verbatim>\<open>"all"\<close> resets the skill, location and
  experience criteria to the empty string and leaves the search term unchanged;
  switching to any other mode changes none of the four criterion strings. In both cases
  the mode becomes the selected value.
\<close>

theorem handleFilterTypeChange_criteria:
  "(v = js ''all'' \<longrightarrow>
      skillFilter (handleFilterTypeChange v st) = []
      \<and> locationFilter (handleFilterTypeChange v st) = []
      \<and> experienceFilter (handleFilterTypeChange v st) = []
      \<and> searchTerm (handleFilterTypeChange v st) = searchTerm st)
   \<and> (v \<noteq> js ''all'' \<longrightarrow>
      skillFilter (handleFilterTypeChange v st) = skillFilter st
      \<and> locationFilter (handleFilterTypeChange v st) = locationFilter st
      \<and> experienceFilter (handleFilterTypeChange v st) = experienceFilter st
      \<and> searchTerm (handleFilterTypeChange v st) = searchTerm st)
   \<and> filterType (handleFilterTypeChange v st) = v"
  by (simp add: handleFilterTypeChange_def Let_def)

theorem handleFilterTypeChange_criteria_witness:
  "skillFilter (handleFilterTypeChange (js ''all'')
      (initial_state\<lparr>searchTerm := js ''ann'', filterType := js ''skills'', skillFilter := js ''sql''\<rparr>)) = []
   \<and> searchTerm (handleFilterTypeChange (js ''all'')
      (initial_state\<lparr>searchTerm := js ''ann'', filterType := js ''skills'', skillFilter := js ''sql''\<rparr>)) = js ''ann''
   \<and> js ''location'' \<noteq> js ''all''
   \<and> skillFilter (handleFilterTypeChange (js ''location'')
      (initial_state\<lparr>searchTerm := js ''ann'', filterType := js ''skills'', skillFilter := js ''sql''\<rparr>)) = js ''sql''"
proof -
  let ?S = "initial_state\<lparr>searchTerm := js ''ann'', filterType := js ''skills'', skillFilter := js ''sql''\<rparr>"
  have a: "skillFilter (handleFilterTypeChange (js ''all'') ?S) = []
      \<and> searchTerm (handleFilterTypeChange (js ''all'') ?S) = searchTerm ?S"
    using handleFilterTypeChange_criteria [of "js ''all''" ?S] by blast
  have n: "js ''location'' \<noteq> js ''all''" by (simp add: js_def)
  have b: "skillFilter (handleFilterTypeChange (js ''location'') ?S) = skillFilter ?S"
    using handleFilterTypeChange_criteria [of "js ''location''" ?S] n by blast
  from a b n show ?thesis by simp
qed

text \<open>
  C10: the clear-filters action resets the four criterion strings to empty and the
  filter mode to \<^verbatim>\<open>"all"\<close> and leaves the collection as it is; the recomputation that
  follows returns and stores the full collection as the filtered view.
\<close>

theorem clearFilters_resets:
  "searchTerm (clearFilters st) = []
   \<and> skillFilter (clearFilters st) = []
   \<and> locationFilter (clearFilters st) = []
   \<and> experienceFilter (clearFilters st) = []
   \<and> filterType (clearFilters st) = js ''all''
   \<and> resumes (clearFilters st) = resumes st
   \<and> filterEffect wl (clearFilters st) = Inr ((clearFilters st)\<lparr>filteredResumes := resumes st\<rparr>)"
  by (simp add: clearFilters_def filterEffect_def)

section \<open>Export\<close>

text \<open>
  C7: export on an empty filtered view produces exactly one notice, the
  \<^verbatim>\<open>"No Data"\<close> notice, and no call of the spreadsheet writer, whatever the two
  functions of the spreadsheet library are.
\<close>

theorem handleExport_empty:
  assumes "filteredResumes st = []"
  shows "handleExport prepareResumeDataForExcel exportToExcel st
           = ([Toast \<lparr>toast_title = js ''No Data'',
                      description = js ''There is no data to export.'',
                      variant = Some (js ''destructive'')\<rparr>], None)
         \<and> length (filter is_toast
              (fst (handleExport prepareResumeDataForExcel exportToExcel st))) = 1
         \<and> filter is_export
              (fst (handleExport prepareResumeDataForExcel exportToExcel st)) = []"
  using assms by (simp add: handleExport_def)

theorem handleExport_empty_witness:
  "filteredResumes initial_state = []
   \<and> handleExport (\<lambda>rs. Inr (map name_of rs)) (\<lambda>rows opts. Inr ()) initial_state
       = ([Toast \<lparr>toast_title = js ''No Data'',
                  description = js ''There is no data to export.'',
                  variant = Some (js ''destructive'')\<rparr>], None)"
proof -
  have h: "filteredResumes initial_state = []"
    by (simp add: initial_state_def)
  from handleExport_empty [OF h, of "\<lambda>rs. Inr (map name_of rs)" "\<lambda>rows opts. Inr ()"] h
  show ?thesis by blast
qed



section \<open>The initial fetch\<close>



end
